theory Spec2Isabelle
  imports Main "HOL-Library.Sublist"
begin

section \<open>JavaScript values used by the storage layer\<close>

text \<open>
  The storage layer of the watch tower is TypeScript: \<^verbatim>\<open>src/services/redis-storage.ts\<close>
  (class \<^verbatim>\<open>RedisDBService\<close>) and the facade \<^verbatim>\<open>DBService\<close>. Every value it throws is a
  JavaScript object read through its optional \<^verbatim>\<open>message\<close> property
  (\<^verbatim>\<open>error.message?.includes(...)\<close>); \<^verbatim>\<open>new Error(m)\<close> is \<open>JsError (Some m)\<close>, and a thrown
  value without a message is \<open>JsError None\<close>. A rejected promise is the left summand of a
  sum, a resolved one the right summand. Log statements have no effect on the values
  computed and are left out.
\<close>

datatype js_error = JsError (message: "string option")

text \<open>\<^verbatim>\<open>String.prototype.includes\<close>: the argument occurs as a contiguous substring.\<close>

fun str_includes :: "string \<Rightarrow> string \<Rightarrow> bool" where
  "str_includes [] sub = (sub = [])"
| "str_includes (c # cs) sub = (prefix sub (c # cs) \<or> str_includes cs sub)"

text \<open>A template literal prints an integer in decimal, with a sign when negative.\<close>

definition digit :: "nat \<Rightarrow> char" where
  "digit d = ''0123456789'' ! (d mod 10)"

fun string_of_nat :: "nat \<Rightarrow> string" where
  "string_of_nat n =
     (if n < 10 then [digit n] else string_of_nat (n div 10) @ [digit (n mod 10)])"

declare string_of_nat.simps [simp del]

definition string_of_int :: "int \<Rightarrow> string" where
  "string_of_int i = (if i < 0 then CHR ''-'' # string_of_nat (nat (- i)) else string_of_nat (nat i))"

text \<open>A template literal prints \<^verbatim>\<open>undefined\<close> for a missing property.\<close>

definition string_of_message :: "string option \<Rightarrow> string" where
  "string_of_message m = (case m of None \<Rightarrow> ''undefined'' | Some s \<Rightarrow> s)"

section \<open>The remote backend: \<^verbatim>\<open>RedisDBService\<close>\<close>

subsection \<open>Connection retry policy\<close>

text \<open>
  \<^verbatim>\<open>
  retryStrategy: (times: number) => {
    if (times > 3) {
      throw new Error(`[Redis] Could not connect after ${times} attempts`);
    }
    return Math.min(times * 200, 1000);
  }
  \<close>
  The attempt index \<^verbatim>\<open>times\<close> (here \<open>ntimes\<close>) is an integer; the delay is in milliseconds.
\<close>

definition FatalConnectionError :: "int \<Rightarrow> js_error" where
  "FatalConnectionError ntimes =
     JsError (Some (''[Redis] Could not connect after '' @ string_of_int ntimes @ '' attempts''))"

definition retryStrategy :: "int \<Rightarrow> js_error + int" where
  "retryStrategy ntimes =
     (if ntimes > 3
      then Inl (FatalConnectionError ntimes)
      else Inr (min (ntimes * 200) 1000))"

text \<open>
  The options handed to the client (\<^verbatim>\<open>RedisOptions\<close>), and the service object. The
  fields \<open>port\<close> and \<open>password\<close> of the options are assigned only under a guard, so they
  are optional. A port is a JavaScript number: \<open>NaN\<close> or an integer.
\<close>

datatype js_number = NaN | Num int

fun truthy_number :: "js_number option \<Rightarrow> bool" where
  "truthy_number None = False"
| "truthy_number (Some NaN) = False"
| "truthy_number (Some (Num n)) = (n \<noteq> 0)"

fun truthy_string :: "string option \<Rightarrow> bool" where
  "truthy_string None = False"
| "truthy_string (Some s) = (s \<noteq> [])"

record RedisConfig =
  host :: string
  port :: "js_number option"
  password :: "string option"

record RedisOptions =
  opt_host :: string
  lazyConnect :: bool
  showFriendlyErrorStack :: bool
  enableAutoPipelining :: bool
  maxRetriesPerRequest :: nat
  opt_retryStrategy :: "int \<Rightarrow> js_error + int"
  opt_port :: "js_number option"
  opt_password :: "string option"

record RedisDBService =
  oid :: nat
  options :: RedisOptions
  isConnected :: bool
  keyPrefix :: string

text \<open>The handlers the constructor registers for the client's \<^verbatim>\<open>ready\<close> and \<^verbatim>\<open>close\<close> events.\<close>

definition on_ready :: "RedisDBService \<Rightarrow> RedisDBService" where
  "on_ready this = this\<lparr>isConnected := True\<rparr>"


text \<open>
  Modelled from the spec: the loop that drives \<open>retryStrategy\<close> is the reconnect logic of
  the ioredis client, a library outside the repository. Following the spec (a bounded
  loop with an injectable backoff function, which on each failure waits the delay the
  function returns and retries, and stops with the function's error once it raises), the
  loop takes the strategy as a parameter, the number of attempts that have failed so far
  and the outcomes of the coming attempts (\<open>True\<close>: the attempt succeeds, the client emits
  \<^verbatim>\<open>ready\<close>). It returns the fatal error, or the delays it waited; with no outcome left
  the backend is still connecting.
\<close>

fun connect_loop ::
  "(int \<Rightarrow> js_error + int) \<Rightarrow> int \<Rightarrow> bool list \<Rightarrow> RedisDBService \<Rightarrow>
     (js_error + int list) \<times> RedisDBService" where
  "connect_loop strategy failed [] this = (Inr [], this)"
| "connect_loop strategy failed (True # rest) this = (Inr [], on_ready this)"
| "connect_loop strategy failed (False # rest) this =
     (case strategy (failed + 1) of
        Inl e \<Rightarrow> (Inl e, this)
      | Inr delay \<Rightarrow>
          (case connect_loop strategy (failed + 1) rest this of
             (Inl e, this') \<Rightarrow> (Inl e, this')
           | (Inr delays, this') \<Rightarrow> (Inr (delay # delays), this')))"

subsection \<open>The remote store and the client calls\<close>

text \<open>
  The ioredis client and the Redis server behind it are outside the repository. They are
  the environment of the service: \<open>store\<close> is the content of the physical remote store
  (shared by every service connected to it), \<open>calls\<close> records every call a service makes
  on its client or on the embedded database, in order, with the keys exactly as they are
  handed over. A call takes the transport fault it meets, if any, as a parameter.
  \<^verbatim>\<open>GET\<close> of an absent key resolves to \<^verbatim>\<open>null\<close> (\<open>None\<close>); the commands of a pipeline run
  in the order they were queued; a pipeline that meets a fault rejects after some prefix
  of its commands has run.
\<close>

datatype pipeline_cmd = SET string string | DEL string

datatype backend_call =
  CONNECT | QUIT | GET string | EXEC "pipeline_cmd list" | LEVEL_CLOSE

record remote =
  store :: "string \<rightharpoonup> string"
  calls :: "backend_call list"

definition issue :: "backend_call \<Rightarrow> remote \<Rightarrow> remote" where
  "issue c r = r\<lparr>calls := calls r @ [c]\<rparr>"

definition client_connect :: "js_error option \<Rightarrow> remote \<Rightarrow> (js_error + unit) \<times> remote" where
  "client_connect fault r =
     ((case fault of Some e \<Rightarrow> Inl e | None \<Rightarrow> Inr ()), issue CONNECT r)"


definition client_get ::
  "js_error option \<Rightarrow> string \<Rightarrow> remote \<Rightarrow> (js_error + string option) \<times> remote" where
  "client_get fault k r =
     ((case fault of Some e \<Rightarrow> Inl e | None \<Rightarrow> Inr (store r k)), issue (GET k) r)"

fun apply_cmd :: "pipeline_cmd \<Rightarrow> (string \<rightharpoonup> string) \<Rightarrow> (string \<rightharpoonup> string)" where
  "apply_cmd (SET k v) m = m(k \<mapsto> v)"
| "apply_cmd (DEL k) m = m(k := None)"

definition pipeline_exec ::
  "(nat \<times> js_error) option \<Rightarrow> pipeline_cmd list \<Rightarrow> remote \<Rightarrow> (js_error + unit) \<times> remote" where
  "pipeline_exec fault cmds r =
     (case fault of
        None \<Rightarrow> (Inr (), issue (EXEC cmds) (r\<lparr>store := fold apply_cmd cmds (store r)\<rparr>))
      | Some (n, e) \<Rightarrow>
          (Inl e, issue (EXEC cmds) (r\<lparr>store := fold apply_cmd (take n cmds) (store r)\<rparr>)))"

subsection \<open>\<^verbatim>\<open>open\<close>, \<^verbatim>\<open>close\<close> and the key prefix\<close>

text \<open>
  \<^verbatim>\<open>
  public async open()  { if (!this.isConnected) { await this.client.connect(); } }
  public async close() { if (this.isConnected)  { await this.client.quit(); } }
  private prefixKey(key: string): string { return `${this.keyPrefix}${key}`; }
  \<close>
  Neither method assigns a field: the flag \<open>isConnected\<close> changes only in the event handlers.
\<close>

definition RedisDBService_open ::
  "RedisDBService \<Rightarrow> js_error option \<Rightarrow> remote \<Rightarrow> (js_error + unit) \<times> RedisDBService \<times> remote" where
  "RedisDBService_open this fault r =
     (if \<not> isConnected this
      then (case client_connect fault r of (res, r') \<Rightarrow> (res, this, r'))
      else (Inr (), this, r))"


definition prefixKey :: "RedisDBService \<Rightarrow> string \<Rightarrow> string" where
  "prefixKey this key = keyPrefix this @ key"

subsection \<open>\<^verbatim>\<open>getDB().get\<close>\<close>

text \<open>
  \<^verbatim>\<open>
  get: async (key: string): Promise<string> => {
    try {
      const prefixedKey = this.prefixKey(key);
      const value = await this.client.get(prefixedKey);
      if (value === null) { throw new Error(`Key not found: ${key}`); }
      return value;
    } catch (error: any) {
      if (error.message?.includes("Key not found")) { throw error; }
      throw new Error(`Redis get error for key ${key}: ${error.message}`);
    }
  }
  \<close>
  \<open>get_try\<close> is the \<^verbatim>\<open>try\<close> block, \<open>get_catch\<close> the handler; \<open>NotFound\<close> and
  \<open>OperationError\<close> are the two errors the function constructs.
\<close>

definition NotFound :: "string \<Rightarrow> js_error" where
  "NotFound key = JsError (Some (''Key not found: '' @ key))"

definition OperationError :: "string \<Rightarrow> js_error \<Rightarrow> js_error" where
  "OperationError key error =
     JsError (Some (''Redis get error for key '' @ key @ '': '' @ string_of_message (message error)))"

definition get_try ::
  "RedisDBService \<Rightarrow> js_error option \<Rightarrow> string \<Rightarrow> remote \<Rightarrow> (js_error + string) \<times> remote" where
  "get_try this fault key r =
     (let prefixedKey = prefixKey this key in
      case client_get fault prefixedKey r of
        (Inl e, r') \<Rightarrow> (Inl e, r')
      | (Inr None, r') \<Rightarrow> (Inl (NotFound key), r')
      | (Inr (Some v), r') \<Rightarrow> (Inr v, r'))"

definition message_includes :: "js_error \<Rightarrow> string \<Rightarrow> bool" where
  "message_includes error sub =
     (case message error of None \<Rightarrow> False | Some m \<Rightarrow> str_includes m sub)"

definition get_catch :: "string \<Rightarrow> js_error \<Rightarrow> js_error" where
  "get_catch key error =
     (if message_includes error ''Key not found'' then error else OperationError key error)"

definition RedisDB_get ::
  "RedisDBService \<Rightarrow> js_error option \<Rightarrow> string \<Rightarrow> remote \<Rightarrow> (js_error + string) \<times> remote" where
  "RedisDB_get this fault key r =
     (case get_try this fault key r of
        (Inl error, r') \<Rightarrow> (Inl (get_catch key error), r')
      | (Inr v, r') \<Rightarrow> (Inr v, r'))"

subsection \<open>\<^verbatim>\<open>getDB().batch\<close>\<close>

text \<open>
  The builder's state is its array \<^verbatim>\<open>operations\<close>; \<^verbatim>\<open>put\<close> and \<^verbatim>\<open>del\<close> push onto it.
  \<^verbatim>\<open>
  write: async (): Promise<void> => {
    if (operations.length === 0) { return; }
    const pipeline = this.client.pipeline();
    for (const op of operations) {
      const prefixedKey = this.prefixKey(op.key);
      if (op.type === "put") { pipeline.set(prefixedKey, op.value!); }
      else if (op.type === "del") { pipeline.del(prefixedKey); }
    }
    await pipeline.exec();
    operations.length = 0;
  }
  \<close>
  \<open>RedisBatch_write\<close> returns the outcome, the array after the call and the remote store.
\<close>

datatype batch_op = Put string string | Del string

definition RedisDB_batch :: "batch_op list" where
  "RedisDB_batch = []"

definition RedisBatch_put :: "batch_op list \<Rightarrow> string \<Rightarrow> string \<Rightarrow> batch_op list" where
  "RedisBatch_put operations key v = operations @ [Put key v]"

definition RedisBatch_del :: "batch_op list \<Rightarrow> string \<Rightarrow> batch_op list" where
  "RedisBatch_del operations key = operations @ [Del key]"

fun queue_op :: "RedisDBService \<Rightarrow> batch_op \<Rightarrow> pipeline_cmd" where
  "queue_op this (Put key v) = SET (prefixKey this key) v"
| "queue_op this (Del key) = DEL (prefixKey this key)"

definition RedisBatch_write ::
  "RedisDBService \<Rightarrow> (nat \<times> js_error) option \<Rightarrow> batch_op list \<Rightarrow> remote \<Rightarrow>
     (js_error + unit) \<times> batch_op list \<times> remote" where
  "RedisBatch_write this fault operations r =
     (if length operations = 0 then (Inr (), operations, r)
      else
        (let pipeline = map (queue_op this) operations in
         case pipeline_exec fault pipeline r of
           (Inl e, r') \<Rightarrow> (Inl e, operations, r')
         | (Inr u, r') \<Rightarrow> (Inr (), [], r')))"

section \<open>Construction: the two singletons\<close>

text \<open>
  The process state the constructors read and write: the environment variables, the two
  static fields \<^verbatim>\<open>RedisDBService._instance\<close> and \<^verbatim>\<open>DBService._instance\<close>, and the number of
  service objects constructed so far, which gives every object its identity \<open>oid\<close>.
  The built-in \<^verbatim>\<open>Number\<close> conversion of a string is a parameter, \<open>Number\<close>.
  \<^verbatim>\<open>a || b\<close> on an optional string takes \<open>b\<close> when \<open>a\<close> is \<^verbatim>\<open>undefined\<close> or empty.
\<close>

definition js_or :: "string option \<Rightarrow> string \<Rightarrow> string" where
  "js_or a b = (case a of None \<Rightarrow> b | Some s \<Rightarrow> if s = [] then b else s)"

record process_env =
  STORAGE_TYPE :: "string option"
  REDIS_HOST :: "string option"
  REDIS_PORT :: "string option"
  REDIS_PASSWORD :: "string option"

text \<open>
  \<^verbatim>\<open>
  { host: process.env.REDIS_HOST || "localhost",
    port: process.env.REDIS_PORT ? Number(process.env.REDIS_PORT) : 6379,
    password: process.env.REDIS_PASSWORD }
  \<close>
\<close>

definition env_config :: "(string \<Rightarrow> js_number) \<Rightarrow> process_env \<Rightarrow> RedisConfig" where
  "env_config Number env =
     \<lparr>host = js_or (REDIS_HOST env) ''localhost'',
      port = Some (case REDIS_PORT env of
                     None \<Rightarrow> Num 6379
                   | Some s \<Rightarrow> if s = [] then Num 6379 else Number s),
      password = REDIS_PASSWORD env\<rparr>"

datatype db_handle = LevelDB string | RedisDB nat

record DBService =
  db_oid :: nat
  db :: db_handle
  storageType :: string
  redisService :: "RedisDBService option"

record process =
  env :: process_env
  objects :: nat
  RedisDBService_instance :: "RedisDBService option"
  DBService_instance :: "DBService option"

text \<open>
  The constructor of \<^verbatim>\<open>RedisDBService\<close>: the options of the client, \<^verbatim>\<open>port\<close> and
  \<^verbatim>\<open>password\<close> only when truthy; the service starts disconnected, with the constant prefix.
\<close>

definition RedisDBService_new ::
  "(string \<Rightarrow> js_number) \<Rightarrow> RedisConfig option \<Rightarrow> process \<Rightarrow> RedisDBService \<times> process" where
  "RedisDBService_new Number config p =
     (let redisConfig = (case config of Some c \<Rightarrow> c | None \<Rightarrow> env_config Number (env p));
          opts = \<lparr>opt_host = host redisConfig,
                  lazyConnect = True,
                  showFriendlyErrorStack = True,
                  enableAutoPipelining = True,
                  maxRetriesPerRequest = 0,
                  opt_retryStrategy = retryStrategy,
                  opt_port = (if truthy_number (port redisConfig) then port redisConfig else None),
                  opt_password =
                    (if truthy_string (password redisConfig) then password redisConfig else None)\<rparr>
      in (\<lparr>oid = objects p, options = opts, isConnected = False,
           keyPrefix = ''cryptoswap:watch-tower:''\<rparr>,
          p\<lparr>objects := objects p + 1\<rparr>))"

text \<open>
  \<^verbatim>\<open>
  public static getInstance(config?: RedisConfig): RedisDBService {
    if (!RedisDBService._instance) { RedisDBService._instance = new RedisDBService(config); }
    return RedisDBService._instance;
  }
  \<close>
\<close>

definition RedisDBService_getInstance ::
  "(string \<Rightarrow> js_number) \<Rightarrow> RedisConfig option \<Rightarrow> process \<Rightarrow> RedisDBService \<times> process" where
  "RedisDBService_getInstance Number config p =
     (case RedisDBService_instance p of
        None \<Rightarrow>
          (case RedisDBService_new Number config p of
             (inst, p') \<Rightarrow> (inst, p'\<lparr>RedisDBService_instance := Some inst\<rparr>))
      | Some inst \<Rightarrow> (inst, p))"

text \<open>
  The constructor of the facade \<^verbatim>\<open>DBService\<close>:
  \<^verbatim>\<open>
  this.storageType = storageType || (process.env.STORAGE_TYPE as StorageType) || "leveldb";
  if (this.storageType === "redis") {
    const config: RedisConfig = redisConfig || { ...the environment's... };
    this.redisService = RedisDBService.getInstance(config);
    this.db = this.redisService.getDB();
  } else {
    this.db = new Level<string, string>(path || DEFAULT_DB_LOCATION, options);
  }
  \<close>
  The arguments are optional; the cast of the environment variable checks nothing, so the
  storage type is any string.
\<close>

definition DEFAULT_DB_LOCATION :: string where
  "DEFAULT_DB_LOCATION = ''./database''"

definition DBService_new ::
  "(string \<Rightarrow> js_number) \<Rightarrow> string option \<Rightarrow> string option \<Rightarrow> RedisConfig option \<Rightarrow> process \<Rightarrow>
     DBService \<times> process" where
  "DBService_new Number path storageTypeArg redisConfig p =
     (let this_oid = objects p;
          p0 = p\<lparr>objects := objects p + 1\<rparr>;
          st = js_or storageTypeArg (js_or (STORAGE_TYPE (env p)) ''leveldb'')
      in if st = ''redis''
         then
           (let config = (case redisConfig of Some c \<Rightarrow> c | None \<Rightarrow> env_config Number (env p)) in
            case RedisDBService_getInstance Number (Some config) p0 of
              (svc, p1) \<Rightarrow>
                (\<lparr>db_oid = this_oid, db = RedisDB (oid svc), storageType = st,
                  redisService = Some svc\<rparr>, p1))
         else
           (\<lparr>db_oid = this_oid, db = LevelDB (js_or path DEFAULT_DB_LOCATION), storageType = st,
             redisService = None\<rparr>, p0))"

text \<open>
  \<^verbatim>\<open>
  public static getInstance(path?, storageType?, redisConfig?): DBService {
    if (!DBService._instance) { DBService._instance = new DBService(path, storageType, redisConfig); }
    return DBService._instance;
  }
  \<close>
\<close>

definition DBService_getInstance ::
  "(string \<Rightarrow> js_number) \<Rightarrow> string option \<Rightarrow> string option \<Rightarrow> RedisConfig option \<Rightarrow> process \<Rightarrow>
     DBService \<times> process" where
  "DBService_getInstance Number path storageTypeArg redisConfig p =
     (case DBService_instance p of
        None \<Rightarrow>
          (case DBService_new Number path storageTypeArg redisConfig p of
             (inst, p') \<Rightarrow> (inst, p'\<lparr>DBService_instance := Some inst\<rparr>))
      | Some inst \<Rightarrow> (inst, p))"

text \<open>A sequence of requests for the instance, each with its own arguments.\<close>

fun DBService_requests ::
  "(string \<Rightarrow> js_number) \<Rightarrow> (string option \<times> string option \<times> RedisConfig option) list \<Rightarrow> process \<Rightarrow>
     DBService list \<times> process" where
  "DBService_requests Number [] p = ([], p)"
| "DBService_requests Number ((path, st, cfg) # reqs) p =
     (case DBService_getInstance Number path st cfg p of
        (inst, p') \<Rightarrow>
          (case DBService_requests Number reqs p' of (insts, p'') \<Rightarrow> (inst # insts, p'')))"



text \<open>A process in which nothing has been constructed, and a service fresh from its constructor.\<close>

definition fresh_process :: "process_env \<Rightarrow> process" where
  "fresh_process e =
     \<lparr>env = e, objects = 0, RedisDBService_instance = None, DBService_instance = None\<rparr>"

definition no_env :: process_env where
  "no_env = \<lparr>STORAGE_TYPE = None, REDIS_HOST = None, REDIS_PORT = None, REDIS_PASSWORD = None\<rparr>"

definition fresh_service :: RedisDBService where
  "fresh_service = fst (RedisDBService_new (\<lambda>s. NaN) None (fresh_process no_env))"

definition empty_remote :: remote where
  "empty_remote = \<lparr>store = Map.empty, calls = []\<rparr>"

text \<open>
  A conversion for the examples: it reads the one string \<^verbatim>\<open>6380\<close>; every other string is
  not a number.
\<close>

definition Number_6380 :: "string \<Rightarrow> js_number" where
  "Number_6380 s = (if s = ''6380'' then Num 6380 else NaN)"

text \<open>
  Modelled from the spec: the port the client connects to. The client library, outside
  the repository, uses its default port when the option \<^verbatim>\<open>port\<close> is not set; the spec
  gives that default as 6379, the number the constructor's log line prints for a
  configuration without a port (\<^verbatim>\<open>redisConfig.port || 6379\<close>).
\<close>

definition client_port :: "RedisOptions \<Rightarrow> js_number" where
  "client_port opts = (case opt_port opts of Some n \<Rightarrow> n | None \<Rightarrow> Num 6379)"

section \<open>Vocabulary of the properties\<close>

text \<open>The key a pipeline command carries on the wire, and the key the caller gave an operation.\<close>

fun cmd_key :: "pipeline_cmd \<Rightarrow> string" where
  "cmd_key (SET k v) = k"
| "cmd_key (DEL k) = k"

fun op_key :: "batch_op \<Rightarrow> string" where
  "op_key (Put k v) = k"
| "op_key (Del k) = k"

text \<open>
  The configuration opts in to the remote backend: the constructor's argument is
  \<^verbatim>\<open>"redis"\<close>, or the argument is missing (or empty) and the environment variable
  \<^verbatim>\<open>STORAGE_TYPE\<close> is \<^verbatim>\<open>"redis"\<close>.
\<close>

definition selects_remote :: "string option \<Rightarrow> process_env \<Rightarrow> bool" where
  "selects_remote st e \<longleftrightarrow>
     st = Some ''redis'' \<or> ((st = None \<or> st = Some []) \<and> STORAGE_TYPE e = Some ''redis'')"

section \<open>Properties\<close>

lemma str_includes_iff: "str_includes s sub \<longleftrightarrow> (\<exists>ps ss. s = ps @ sub @ ss)"
proof (induction s)
  case Nil
  then show ?case by auto
next
  case (Cons c cs)
  have "(\<exists>ps ss. c # cs = ps @ sub @ ss) \<longleftrightarrow>
        prefix sub (c # cs) \<or> (\<exists>ps ss. cs = ps @ sub @ ss)"
    using sublist_Cons_right [of sub c cs] by (simp add: sublist_def)
  with Cons show ?case by simp
qed

lemma string_of_int_4: "string_of_int 4 = ''4''"
  by (simp add: string_of_int_def string_of_nat.simps digit_def)

lemma string_of_int_5: "string_of_int 5 = ''5''"
  by (simp add: string_of_int_def string_of_nat.simps digit_def)

lemma fresh_service_eq:
  "fresh_service =
     \<lparr>oid = 0,
      options = \<lparr>opt_host = ''localhost'', lazyConnect = True, showFriendlyErrorStack = True,
        enableAutoPipelining = True, maxRetriesPerRequest = 0, opt_retryStrategy = retryStrategy,
        opt_port = Some (Num 6379), opt_password = None\<rparr>,
      isConnected = False, keyPrefix = ''cryptoswap:watch-tower:''\<rparr>"
  by (simp add: fresh_service_def RedisDBService_new_def fresh_process_def no_env_def
      env_config_def js_or_def)

lemma fresh_service_disconnected: "\<not> isConnected fresh_service"
  by (simp add: fresh_service_eq)

subsection \<open>Connection retry\<close>

text \<open>
  Claim C1. The retry strategy answers an attempt index of at most 3 with the delay
  \<open>min (attempt * 200) 1000\<close> milliseconds and raises the fatal connection error for
  every larger index; in the retry loop, a failure after three earlier failures ends
  the loop with that error and leaves the backend as it was, whatever the later attempts
  would do. A disconnected backend whose first two attempts fail and whose third succeeds
  waits 200 and 400 milliseconds and becomes Ready; one whose first four attempts fail
  ends with the fatal error and is not Ready.
\<close>

theorem retry_policy:
  "(a \<le> 3 \<longrightarrow> retryStrategy a = Inr (min (a * 200) 1000)) \<and>
   (3 < b \<longrightarrow> retryStrategy b = Inl (FatalConnectionError b)) \<and>
   (3 \<le> failed \<longrightarrow>
      connect_loop retryStrategy failed (False # rest) this =
        (Inl (FatalConnectionError (failed + 1)), this)) \<and>
   (\<not> isConnected this \<longrightarrow>
      (\<exists>this'. connect_loop retryStrategy 0 [False, False, True] this = (Inr [200, 400], this')
         \<and> isConnected this')) \<and>
   (\<not> isConnected this \<longrightarrow>
      (\<exists>this'. connect_loop retryStrategy 0 (False # False # False # False # later) this =
         (Inl (FatalConnectionError 4), this') \<and> \<not> isConnected this'))"
proof -
  have r1: "retryStrategy 1 = Inr 200" and r2: "retryStrategy 2 = Inr 400"
    and r3: "retryStrategy 3 = Inr 600" and r4: "retryStrategy 4 = Inl (FatalConnectionError 4)"
    by (simp_all add: retryStrategy_def)
  have A: "a \<le> 3 \<longrightarrow> retryStrategy a = Inr (min (a * 200) 1000)"
    by (simp add: retryStrategy_def)
  have B: "3 < b \<longrightarrow> retryStrategy b = Inl (FatalConnectionError b)"
    by (simp add: retryStrategy_def)
  have C: "3 \<le> failed \<longrightarrow>
      connect_loop retryStrategy failed (False # rest) this =
        (Inl (FatalConnectionError (failed + 1)), this)"
    by (simp add: retryStrategy_def)
  have D: "\<not> isConnected this \<longrightarrow>
      (\<exists>this'. connect_loop retryStrategy 0 [False, False, True] this = (Inr [200, 400], this')
         \<and> isConnected this')"
    by (simp add: r1 r2 on_ready_def)
  have E: "\<not> isConnected this \<longrightarrow>
      (\<exists>this'. connect_loop retryStrategy 0 (False # False # False # False # later) this =
         (Inl (FatalConnectionError 4), this') \<and> \<not> isConnected this')"
    by (simp add: r1 r2 r3 r4)
  from A B C D E show ?thesis by blast
qed

theorem retry_policy_witness:
  "retryStrategy 2 = Inr 400 \<and>
   retryStrategy 5 = Inl (JsError (Some ''[Redis] Could not connect after 5 attempts'')) \<and>
   connect_loop retryStrategy 3 [False, True] fresh_service =
     (Inl (JsError (Some ''[Redis] Could not connect after 4 attempts'')), fresh_service) \<and>
   connect_loop retryStrategy 0 [False, False, True] fresh_service =
     (Inr [200, 400], on_ready fresh_service) \<and>
   isConnected (on_ready fresh_service) \<and>
   connect_loop retryStrategy 0 [False, False, False, False, True] fresh_service =
     (Inl (JsError (Some ''[Redis] Could not connect after 4 attempts'')), fresh_service) \<and>
   \<not> isConnected fresh_service"
  using retry_policy [of 2 5 3 "[True]" fresh_service "[True]"] fresh_service_disconnected
  by (simp add: retryStrategy_def FatalConnectionError_def string_of_int_4 string_of_int_5)

subsection \<open>Helper facts about the remote operations\<close>

lemma store_issue [simp]: "store (issue c r) = store r"
  by (simp add: issue_def)

lemma calls_issue [simp]: "calls (issue c r) = calls r @ [c]"
  by (simp add: issue_def)

lemma cmd_key_queue_op: "cmd_key (queue_op this op) = keyPrefix this @ op_key op"
  by (cases op) (simp_all add: prefixKey_def)

lemma fold_apply_cmd_other:
  "k \<notin> cmd_key ` set cmds \<Longrightarrow> fold apply_cmd cmds m k = m k"
proof (induction cmds arbitrary: m)
  case Nil
  then show ?case by simp
next
  case (Cons c cmds)
  then show ?case by (cases c) auto
qed

lemma message_includes_iff:
  "message_includes error sub \<longleftrightarrow> (\<exists>m ps ss. message error = Some m \<and> m = ps @ sub @ ss)"
  by (cases "message error") (simp_all add: message_includes_def str_includes_iff)

lemma NotFound_includes: "message_includes (NotFound key) ''Key not found''"
  by (simp add: message_includes_def NotFound_def)

lemma get_catch_NotFound: "get_catch key (NotFound key') = NotFound key'"
  by (simp add: get_catch_def NotFound_includes)

lemma RedisDB_get_eq:
  "RedisDB_get this fault key r =
     ((case fault of
         Some e \<Rightarrow> Inl (get_catch key e)
       | None \<Rightarrow> (case store r (prefixKey this key) of
                    None \<Rightarrow> Inl (get_catch key (NotFound key))
                  | Some v \<Rightarrow> Inr v)),
      issue (GET (prefixKey this key)) r)"
  by (simp add: RedisDB_get_def get_try_def client_get_def Let_def split: option.splits)

lemma get_fault: "fst (RedisDB_get this (Some error) key r) = Inl (get_catch key error)"
  by (simp add: RedisDB_get_eq)

lemma get_no_fault:
  "fst (RedisDB_get this None key r) =
     (case store r (prefixKey this key) of None \<Rightarrow> Inl (NotFound key) | Some v \<Rightarrow> Inr v)"
  by (simp add: RedisDB_get_eq get_catch_NotFound split: option.splits)

lemma get_result_store:
  "store r' (prefixKey this key) = store r (prefixKey this key) \<Longrightarrow>
   fst (RedisDB_get this fault key r') = fst (RedisDB_get this fault key r)"
  by (simp add: RedisDB_get_eq split: option.splits)

lemma get_calls:
  "calls (snd (RedisDB_get this fault key r)) = calls r @ [GET (keyPrefix this @ key)]"
  by (simp add: RedisDB_get_eq prefixKey_def)

lemma RedisBatch_write_eq:
  "RedisBatch_write this fault operations r =
     (if operations = [] then (Inr (), [], r)
      else case fault of
        None \<Rightarrow>
          (Inr (), [],
           issue (EXEC (map (queue_op this) operations))
             (r\<lparr>store := fold apply_cmd (map (queue_op this) operations) (store r)\<rparr>))
      | Some (n, e) \<Rightarrow>
          (Inl e, operations,
           issue (EXEC (map (queue_op this) operations))
             (r\<lparr>store := fold apply_cmd (take n (map (queue_op this) operations)) (store r)\<rparr>)))"
  by (simp add: RedisBatch_write_def pipeline_exec_def Let_def split: option.splits)

lemma write_calls:
  "calls (snd (snd (RedisBatch_write this fault operations r))) =
     calls r @ (if operations = [] then [] else [EXEC (map (queue_op this) operations)])"
  by (simp add: RedisBatch_write_eq split: option.splits)

lemma store_after_write:
  "store (snd (snd (RedisBatch_write this None operations r))) =
     fold apply_cmd (map (queue_op this) operations) (store r)"
  by (simp add: RedisBatch_write_eq)

lemma write_store_other:
  assumes "k \<notin> cmd_key ` set (map (queue_op this) operations)"
  shows "store (snd (snd (RedisBatch_write this fault operations r))) k = store r k"
proof (cases fault)
  case None
  with assms show ?thesis
    by (simp add: RedisBatch_write_eq fold_apply_cmd_other)
next
  case (Some f)
  obtain n e where f: "f = (n, e)" by (cases f)
  have "k \<notin> cmd_key ` set (take n (map (queue_op this) operations))"
    using assms set_take_subset [of n "map (queue_op this) operations"] by blast
  with Some f show ?thesis
    by (simp add: RedisBatch_write_eq fold_apply_cmd_other)
qed

lemma queue_key_notin:
  "key \<notin> op_key ` set ops \<Longrightarrow> prefixKey this key \<notin> cmd_key ` set (map (queue_op this) ops)"
  by (auto simp: cmd_key_queue_op prefixKey_def)

lemma last_put_store:
  assumes "key \<notin> op_key ` set after"
  shows "fold apply_cmd (map (queue_op this) (before @ Put key v # after)) m (prefixKey this key) = Some v"
  using queue_key_notin [OF assms, of this] by (simp add: fold_apply_cmd_other)

lemma last_del_store:
  assumes "key \<notin> op_key ` set after"
  shows "fold apply_cmd (map (queue_op this) (before @ Del key # after)) m (prefixKey this key) = None"
  using queue_key_notin [OF assms, of this] by (simp add: fold_apply_cmd_other)

text \<open>Concrete values for the examples.\<close>

lemma prefixKey_fresh: "prefixKey fresh_service key = ''cryptoswap:watch-tower:'' @ key"
  by (simp add: prefixKey_def fresh_service_eq)

lemma includes_ECONNRESET: "\<not> message_includes (JsError (Some ''ECONNRESET'')) ''Key not found''"
  by (simp add: message_includes_def)

lemma includes_cache: "message_includes (JsError (Some ''Key not found in cache'')) ''Key not found''"
  by (simp add: message_includes_def)

subsection \<open>Namespace prefix\<close>

text \<open>
  Claim C2. Every service the constructor builds has the constant prefix
  \<^verbatim>\<open>cryptoswap:watch-tower:\<close>. \<^verbatim>\<open>get\<close> hands the client exactly one call, on the prefixed key; \<^verbatim>\<open>write\<close> hands
  it at most one pipeline, whose commands carry the prefixed keys of the buffered
  operations, in order, also when the transport fails. So when one service writes a
  batch on a key and a service with a different prefix on the same remote store reads
  that key, the read returns what it returned before the write.
\<close>

theorem prefix_isolation:
  "keyPrefix (fst (RedisDBService_new Number config p)) = ''cryptoswap:watch-tower:'' \<and>
   calls (snd (RedisDB_get this fault key r)) = calls r @ [GET (keyPrefix this @ key)] \<and>
   calls (snd (snd (RedisBatch_write this wfault operations r))) =
     calls r @ (if operations = [] then [] else [EXEC (map (queue_op this) operations)]) \<and>
   map cmd_key (map (queue_op this) operations) = map (\<lambda>op. keyPrefix this @ op_key op) operations \<and>
   (keyPrefix this \<noteq> keyPrefix other \<and> list_all (\<lambda>op. op_key op = key) operations \<longrightarrow>
      fst (RedisDB_get other fault key (snd (snd (RedisBatch_write this wfault operations r)))) =
      fst (RedisDB_get other fault key r))"
proof -
  have iso: "fst (RedisDB_get other fault key (snd (snd (RedisBatch_write this wfault operations r)))) =
      fst (RedisDB_get other fault key r)"
    if ne: "keyPrefix this \<noteq> keyPrefix other" and all: "list_all (\<lambda>op. op_key op = key) operations"
  proof -
    have "prefixKey other key \<notin> cmd_key ` set (map (queue_op this) operations)"
      using ne all by (auto simp: cmd_key_queue_op prefixKey_def list_all_iff)
    then have "store (snd (snd (RedisBatch_write this wfault operations r))) (prefixKey other key) =
        store r (prefixKey other key)"
      by (rule write_store_other)
    then show ?thesis by (rule get_result_store)
  qed
  have const: "keyPrefix (fst (RedisDBService_new Number config p)) = ''cryptoswap:watch-tower:''"
    by (simp add: RedisDBService_new_def Let_def)
  show ?thesis
    using iso const by (simp add: get_calls write_calls cmd_key_queue_op)
qed

theorem prefix_isolation_witness:
  "calls (snd (RedisDB_get fresh_service None ''k'' empty_remote)) =
     [GET ''cryptoswap:watch-tower:k''] \<and>
   calls (snd (snd (RedisBatch_write fresh_service None [Put ''k'' ''v1''] empty_remote))) =
     [EXEC [SET ''cryptoswap:watch-tower:k'' ''v1'']] \<and>
   fst (RedisDB_get (fresh_service\<lparr>keyPrefix := ''tenant-b:''\<rparr>) None ''k''
          (snd (snd (RedisBatch_write fresh_service None [Put ''k'' ''v1''] empty_remote)))) =
     Inl (NotFound ''k'') \<and>
   fst (RedisDB_get fresh_service None ''k''
          (snd (snd (RedisBatch_write fresh_service None [Put ''k'' ''v1''] empty_remote)))) =
     Inr ''v1''"
  using prefix_isolation [where this = fresh_service and fault = None and key = "''k''"
      and r = empty_remote and wfault = None and operations = "[Put ''k'' ''v1'']"
      and other = "fresh_service\<lparr>keyPrefix := ''tenant-b:''\<rparr>"]
  by (simp add: fresh_service_eq get_no_fault store_after_write prefixKey_def empty_remote_def)

subsection \<open>The contract of \<^verbatim>\<open>get\<close>\<close>

lemma OperationError_neq: "OperationError key error \<noteq> error"
proof
  assume eq: "OperationError key error = error"
  define pre where "pre = ''Redis get error for key '' @ key @ '': ''"
  have "message (OperationError key error) = Some (pre @ string_of_message (message error))"
    by (simp add: OperationError_def pre_def)
  with eq have m: "message error = Some (pre @ string_of_message (message error))"
    by simp
  then obtain s where s: "message error = Some s"
    by blast
  with m have "s = pre @ s"
    by (simp add: string_of_message_def)
  then have "length s = length pre + length s"
    by (metis length_append)
  moreover have "0 < length pre"
    by (simp add: pre_def)
  ultimately show False by simp
qed

lemma get_catch_id_iff:
  "get_catch key error = error \<longleftrightarrow> message_includes error ''Key not found''"
  by (simp add: get_catch_def OperationError_neq)

text \<open>
  Claim C3, as stated, fails: a transport failure whose message contains
  \<^verbatim>\<open>Key not found\<close> is not wrapped into an operation error. The client's \<^verbatim>\<open>get\<close> rejects with
  the message \<^verbatim>\<open>Key not found in cache\<close>; the service re-raises that error as it is, and it
  is not the operation error for the key and the cause.
\<close>

theorem get_transport_failure_counterexample:
  "fst (RedisDB_get fresh_service (Some (JsError (Some ''Key not found in cache''))) ''order:123''
         empty_remote) = Inl (JsError (Some ''Key not found in cache'')) \<and>
   JsError (Some ''Key not found in cache'') \<noteq>
     OperationError ''order:123'' (JsError (Some ''Key not found in cache''))"
  by (simp add: get_fault get_catch_def message_includes_def OperationError_def)

text \<open>
  Claim C3, amended. Without a transport failure, \<^verbatim>\<open>get\<close> returns the value stored under
  the prefixed key and fails with \<open>NotFound\<close> when there is none; in particular it fails
  with \<open>NotFound\<close> for a key that no operation of the batches written to an empty store
  names. On a transport failure whose message does not contain \<^verbatim>\<open>Key not found\<close> it fails
  with the operation error that carries the key, the operation and the cause's message;
  a failure whose message contains \<^verbatim>\<open>Key not found\<close> is re-raised unchanged.
\<close>

theorem get_contract:
  "(store r (prefixKey this key) = Some v \<longrightarrow> fst (RedisDB_get this None key r) = Inr v) \<and>
   (store r (prefixKey this key) = None \<longrightarrow> fst (RedisDB_get this None key r) = Inl (NotFound key)) \<and>
   (key \<notin> op_key ` set operations \<longrightarrow>
      fst (RedisDB_get this None key
             (snd (snd (RedisBatch_write this wfault operations empty_remote)))) =
        Inl (NotFound key)) \<and>
   (\<not> message_includes cause ''Key not found'' \<longrightarrow>
      fst (RedisDB_get this (Some cause) key r) = Inl (OperationError key cause)) \<and>
   (message_includes cause ''Key not found'' \<longrightarrow>
      fst (RedisDB_get this (Some cause) key r) = Inl cause)"
proof -
  have present: "store r (prefixKey this key) = Some v \<longrightarrow> fst (RedisDB_get this None key r) = Inr v"
    by (simp add: get_no_fault)
  have absent: "store r (prefixKey this key) = None \<longrightarrow>
      fst (RedisDB_get this None key r) = Inl (NotFound key)"
    by (simp add: get_no_fault)
  have never: "key \<notin> op_key ` set operations \<longrightarrow>
      fst (RedisDB_get this None key
             (snd (snd (RedisBatch_write this wfault operations empty_remote)))) =
        Inl (NotFound key)"
  proof
    assume "key \<notin> op_key ` set operations"
    then have "prefixKey this key \<notin> cmd_key ` set (map (queue_op this) operations)"
      by (rule queue_key_notin)
    then have "store (snd (snd (RedisBatch_write this wfault operations empty_remote)))
        (prefixKey this key) = store empty_remote (prefixKey this key)"
      by (rule write_store_other)
    then show "fst (RedisDB_get this None key
             (snd (snd (RedisBatch_write this wfault operations empty_remote)))) =
        Inl (NotFound key)"
      by (simp add: get_no_fault empty_remote_def)
  qed
  have wrapped: "\<not> message_includes cause ''Key not found'' \<longrightarrow>
      fst (RedisDB_get this (Some cause) key r) = Inl (OperationError key cause)"
    by (simp add: get_fault get_catch_def)
  have rethrown: "message_includes cause ''Key not found'' \<longrightarrow>
      fst (RedisDB_get this (Some cause) key r) = Inl cause"
    by (simp add: get_fault get_catch_def)
  from present absent never wrapped rethrown show ?thesis by blast
qed

theorem get_contract_witness:
  "fst (RedisDB_get fresh_service None ''a''
          (empty_remote\<lparr>store := [''cryptoswap:watch-tower:a'' \<mapsto> ''1'']\<rparr>)) = Inr ''1'' \<and>
   fst (RedisDB_get fresh_service None ''a'' empty_remote) =
     Inl (JsError (Some ''Key not found: a'')) \<and>
   fst (RedisDB_get fresh_service None ''a''
          (snd (snd (RedisBatch_write fresh_service None [Put ''b'' ''2''] empty_remote)))) =
     Inl (JsError (Some ''Key not found: a'')) \<and>
   fst (RedisDB_get fresh_service (Some (JsError (Some ''ECONNRESET''))) ''a''
          (empty_remote\<lparr>store := [''cryptoswap:watch-tower:a'' \<mapsto> ''1'']\<rparr>)) =
     Inl (JsError (Some ''Redis get error for key a: ECONNRESET'')) \<and>
   fst (RedisDB_get fresh_service (Some (JsError (Some ''Key not found in cache''))) ''a''
          empty_remote) = Inl (JsError (Some ''Key not found in cache''))"
  using get_contract [where this = fresh_service and key = "''a''" and v = "''1''"
      and r = "empty_remote\<lparr>store := [''cryptoswap:watch-tower:a'' \<mapsto> ''1'']\<rparr>"
      and operations = "[Put ''b'' ''2'']" and wfault = None
      and cause = "JsError (Some ''ECONNRESET'')"]
    get_contract [where this = fresh_service and key = "''a''" and r = empty_remote
      and operations = "[]" and wfault = None
      and cause = "JsError (Some ''Key not found in cache'')"]
    includes_ECONNRESET includes_cache
  by (simp add: prefixKey_fresh empty_remote_def NotFound_def OperationError_def
      string_of_message_def)

text \<open>
  Claim C10. The handler of \<^verbatim>\<open>get\<close> re-raises the error it caught unchanged exactly when
  the error's message contains the substring \<^verbatim>\<open>Key not found\<close>; any other error becomes
  the operation error, whose message names the operation, the key and the cause's
  message. A transport failure is passed through this handler, so one whose message
  contains the substring comes out as it went in, as the error for an absent key does.
\<close>

theorem get_error_classification:
  "(get_catch key error = error \<longleftrightarrow> message_includes error ''Key not found'') \<and>
   (message_includes error ''Key not found'' \<longleftrightarrow>
      (\<exists>m ps ss. message error = Some m \<and> m = ps @ ''Key not found'' @ ss)) \<and>
   (\<not> message_includes error ''Key not found'' \<longrightarrow>
      get_catch key error = OperationError key error \<and>
      message (get_catch key error) =
        Some (''Redis get error for key '' @ key @ '': '' @ string_of_message (message error))) \<and>
   fst (RedisDB_get this (Some error) key r) = Inl (get_catch key error) \<and>
   (message_includes cause ''Key not found'' \<longrightarrow>
      fst (RedisDB_get this (Some cause) key r) = Inl cause) \<and>
   get_catch key (NotFound key) = NotFound key"
proof -
  have wrapped: "message (OperationError key error) =
      Some (''Redis get error for key '' @ key @ '': '' @ string_of_message (message error))"
    by (simp add: OperationError_def)
  have other: "\<not> message_includes error ''Key not found'' \<longrightarrow>
      get_catch key error = OperationError key error \<and>
      message (get_catch key error) =
        Some (''Redis get error for key '' @ key @ '': '' @ string_of_message (message error))"
  proof
    assume "\<not> message_includes error ''Key not found''"
    then have "get_catch key error = OperationError key error"
      by (simp add: get_catch_def)
    with wrapped show "get_catch key error = OperationError key error \<and>
      message (get_catch key error) =
        Some (''Redis get error for key '' @ key @ '': '' @ string_of_message (message error))"
      by (simp only: simp_thms)
  qed
  have rethrown: "message_includes cause ''Key not found'' \<longrightarrow>
      fst (RedisDB_get this (Some cause) key r) = Inl cause"
    by (simp add: get_fault get_catch_def)
  from get_catch_id_iff [of key error] message_includes_iff [of error "''Key not found''"]
    other get_fault [of this error key r] rethrown get_catch_NotFound [of key key]
  show ?thesis by blast
qed

theorem get_error_classification_witness:
  "get_catch ''a'' (JsError (Some ''ECONNRESET'')) =
     JsError (Some ''Redis get error for key a: ECONNRESET'') \<and>
   get_catch ''a'' (JsError None) = JsError (Some ''Redis get error for key a: undefined'') \<and>
   fst (RedisDB_get fresh_service (Some (JsError (Some ''read: Key not found''))) ''a''
          empty_remote) = Inl (JsError (Some ''read: Key not found''))"
proof -
  have no: "\<not> message_includes (JsError None) ''Key not found''"
    by (simp add: message_includes_def)
  have yes: "message_includes (JsError (Some ''read: Key not found'')) ''Key not found''"
    by (simp add: message_includes_def)
  from get_error_classification [where error = "JsError (Some ''ECONNRESET'')" and key = "''a''"
      and cause = "JsError (Some ''read: Key not found'')" and this = fresh_service
      and r = empty_remote]
    get_error_classification [where error = "JsError None" and key = "''a''"
      and cause = "JsError (Some ''read: Key not found'')" and this = fresh_service
      and r = empty_remote]
    includes_ECONNRESET no yes
  show ?thesis
    by (simp add: OperationError_def string_of_message_def)
qed

subsection \<open>Batches\<close>

text \<open>
  Claim C4. A successful \<^verbatim>\<open>write\<close> of a non-empty batch runs the buffered operations on
  the store in the order they were buffered and empties the buffer. So after
  \<^verbatim>\<open>put(k, va)\<close>, \<^verbatim>\<open>put(k, vb)\<close> and \<^verbatim>\<open>write()\<close>, \<^verbatim>\<open>get(k)\<close> returns \<open>vb\<close>; more generally
  the last operation of the batch on a key decides: when no operation after
  \<^verbatim>\<open>put(k, vb)\<close> names \<open>k\<close>, \<^verbatim>\<open>get(k)\<close> returns \<open>vb\<close> whatever came before, and when the
  last operation on \<open>k\<close> is a delete, \<^verbatim>\<open>get(k)\<close> fails with \<open>NotFound\<close>. An operation
  buffered later on another key leaves an earlier \<^verbatim>\<open>put\<close> in the batch: its value is read
  back after \<^verbatim>\<open>write()\<close>.
\<close>

theorem batch_last_write_wins:
  "(operations \<noteq> [] \<longrightarrow>
      RedisBatch_write this None operations r =
        (Inr (), [],
         issue (EXEC (map (queue_op this) operations))
           (r\<lparr>store := fold apply_cmd (map (queue_op this) operations) (store r)\<rparr>))) \<and>
   fst (RedisDB_get this None key
          (snd (snd (RedisBatch_write this None
                       (RedisBatch_put (RedisBatch_put operations key va) key vb) r)))) = Inr vb \<and>
   (key \<notin> op_key ` set after \<longrightarrow>
      fst (RedisDB_get this None key
             (snd (snd (RedisBatch_write this None
                          (before @ Put key va # between @ Put key vb # after) r)))) = Inr vb) \<and>
   (key \<notin> op_key ` set after \<longrightarrow>
      fst (RedisDB_get this None key
             (snd (snd (RedisBatch_write this None (before @ Del key # after) r)))) =
        Inl (NotFound key)) \<and>
   (j \<noteq> key \<longrightarrow>
      fst (RedisDB_get this None j
             (snd (snd (RedisBatch_write this None
                          (RedisBatch_put (RedisBatch_put operations j w) key vb) r)))) = Inr w \<and>
      fst (RedisDB_get this None j
             (snd (snd (RedisBatch_write this None
                          (RedisBatch_del (RedisBatch_put operations j w) key) r)))) = Inr w)"
proof -
  have kept: "j \<noteq> key \<longrightarrow>
      fst (RedisDB_get this None j
             (snd (snd (RedisBatch_write this None
                          (RedisBatch_put (RedisBatch_put operations j w) key vb) r)))) = Inr w \<and>
      fst (RedisDB_get this None j
             (snd (snd (RedisBatch_write this None
                          (RedisBatch_del (RedisBatch_put operations j w) key) r)))) = Inr w"
  proof
    assume ne: "j \<noteq> key"
    have "fold apply_cmd (map (queue_op this) (operations @ Put j w # [Put key vb])) (store r)
        (prefixKey this j) = Some w"
      by (rule last_put_store) (simp add: ne)
    moreover have "fold apply_cmd (map (queue_op this) (operations @ Put j w # [Del key])) (store r)
        (prefixKey this j) = Some w"
      by (rule last_put_store) (simp add: ne)
    ultimately show "fst (RedisDB_get this None j
             (snd (snd (RedisBatch_write this None
                          (RedisBatch_put (RedisBatch_put operations j w) key vb) r)))) = Inr w \<and>
      fst (RedisDB_get this None j
             (snd (snd (RedisBatch_write this None
                          (RedisBatch_del (RedisBatch_put operations j w) key) r)))) = Inr w"
      by (simp add: get_no_fault store_after_write RedisBatch_put_def RedisBatch_del_def)
  qed
  have ordered: "operations \<noteq> [] \<longrightarrow>
      RedisBatch_write this None operations r =
        (Inr (), [],
         issue (EXEC (map (queue_op this) operations))
           (r\<lparr>store := fold apply_cmd (map (queue_op this) operations) (store r)\<rparr>))"
    by (simp add: RedisBatch_write_eq)
  have "fold apply_cmd (map (queue_op this) ((operations @ [Put key va]) @ Put key vb # [])) (store r)
      (prefixKey this key) = Some vb"
    by (rule last_put_store) simp
  then have twice: "fst (RedisDB_get this None key
          (snd (snd (RedisBatch_write this None
                       (RedisBatch_put (RedisBatch_put operations key va) key vb) r)))) = Inr vb"
    by (simp add: get_no_fault store_after_write RedisBatch_put_def)
  have put: "key \<notin> op_key ` set after \<longrightarrow>
      fst (RedisDB_get this None key
             (snd (snd (RedisBatch_write this None
                          (before @ Put key va # between @ Put key vb # after) r)))) = Inr vb"
  proof
    assume "key \<notin> op_key ` set after"
    then have "fold apply_cmd
        (map (queue_op this) ((before @ Put key va # between) @ Put key vb # after)) (store r)
        (prefixKey this key) = Some vb"
      by (rule last_put_store)
    then show "fst (RedisDB_get this None key
             (snd (snd (RedisBatch_write this None
                          (before @ Put key va # between @ Put key vb # after) r)))) = Inr vb"
      by (simp add: get_no_fault store_after_write)
  qed
  have del: "key \<notin> op_key ` set after \<longrightarrow>
      fst (RedisDB_get this None key
             (snd (snd (RedisBatch_write this None (before @ Del key # after) r)))) =
        Inl (NotFound key)"
  proof
    assume "key \<notin> op_key ` set after"
    then have "fold apply_cmd (map (queue_op this) (before @ Del key # after)) (store r)
        (prefixKey this key) = None"
      by (rule last_del_store)
    then show "fst (RedisDB_get this None key
             (snd (snd (RedisBatch_write this None (before @ Del key # after) r)))) =
        Inl (NotFound key)"
      by (simp add: get_no_fault store_after_write)
  qed
  show ?thesis
    by (intro conjI ordered twice put del kept)
qed

theorem batch_last_write_wins_witness:
  "RedisBatch_write fresh_service None [Put ''k'' ''v1'', Put ''k'' ''v2''] empty_remote =
     (Inr (), [],
      \<lparr>store = [''cryptoswap:watch-tower:k'' \<mapsto> ''v2''],
       calls = [EXEC [SET ''cryptoswap:watch-tower:k'' ''v1'',
                      SET ''cryptoswap:watch-tower:k'' ''v2'']]\<rparr>) \<and>
   fst (RedisDB_get fresh_service None ''k''
          (snd (snd (RedisBatch_write fresh_service None
                       (RedisBatch_put (RedisBatch_put [Put ''k'' ''v1'', Put ''k'' ''v2''] ''k'' ''v1'')
                          ''k'' ''v2'') empty_remote)))) = Inr ''v2'' \<and>
   fst (RedisDB_get fresh_service None ''k''
          (snd (snd (RedisBatch_write fresh_service None
                       [Del ''k'', Put ''k'' ''v1'', Put ''j'' ''w'', Put ''k'' ''v2'', Del ''j'']
                       empty_remote)))) = Inr ''v2'' \<and>
   fst (RedisDB_get fresh_service None ''k''
          (snd (snd (RedisBatch_write fresh_service None [Del ''k'', Del ''k'', Del ''j'']
                       empty_remote)))) = Inl (NotFound ''k'') \<and>
   fst (RedisDB_get fresh_service None ''j''
          (snd (snd (RedisBatch_write fresh_service None
                       (RedisBatch_del (RedisBatch_put [Put ''k'' ''v1'', Put ''k'' ''v2''] ''j'' ''w'')
                          ''k'') empty_remote)))) = Inr ''w''"
  using batch_last_write_wins [where this = fresh_service and r = empty_remote
      and operations = "[Put ''k'' ''v1'', Put ''k'' ''v2'']" and key = "''k''"
      and va = "''v1''" and vb = "''v2''" and before = "[Del ''k'']"
      and between = "[Put ''j'' ''w'']" and after = "[Del ''j'']"
      and j = "''j''" and w = "''w''"]
  by (simp add: prefixKey_fresh empty_remote_def issue_def)

text \<open>
  Claim C5. When \<^verbatim>\<open>write\<close> succeeds, the buffer it leaves is empty, and the builder works
  on: a \<^verbatim>\<open>put\<close> or a \<^verbatim>\<open>del\<close> on it followed by \<^verbatim>\<open>write\<close> sends exactly that one operation,
  two operations buffered on it are sent as exactly these two, in the order buffered, and
  any further operations buffered on it are written as a batch of their own. A \<^verbatim>\<open>write\<close>
  that meets no transport failure does succeed.
\<close>

theorem write_clears_buffer:
  "(RedisBatch_write this fault operations r = (Inr (), buffer, r') \<longrightarrow>
      buffer = [] \<and>
      RedisBatch_write this None (RedisBatch_put buffer key v) r' =
        (Inr (), [],
         issue (EXEC [SET (prefixKey this key) v]) (r'\<lparr>store := (store r')(prefixKey this key \<mapsto> v)\<rparr>)) \<and>
      RedisBatch_write this None (RedisBatch_del buffer key) r' =
        (Inr (), [],
         issue (EXEC [DEL (prefixKey this key)]) (r'\<lparr>store := (store r')(prefixKey this key := None)\<rparr>)) \<and>
      RedisBatch_write this None (RedisBatch_del (RedisBatch_put buffer key v) dkey) r' =
        (Inr (), [],
         issue (EXEC [SET (prefixKey this key) v, DEL (prefixKey this dkey)])
           (r'\<lparr>store := ((store r')(prefixKey this key \<mapsto> v))(prefixKey this dkey := None)\<rparr>)) \<and>
      RedisBatch_write this None (RedisBatch_put (RedisBatch_del buffer dkey) key v) r' =
        (Inr (), [],
         issue (EXEC [DEL (prefixKey this dkey), SET (prefixKey this key) v])
           (r'\<lparr>store := ((store r')(prefixKey this dkey := None))(prefixKey this key \<mapsto> v)\<rparr>)) \<and>
      RedisBatch_write this fault' (buffer @ next_ops) r' = RedisBatch_write this fault' next_ops r') \<and>
   fst (RedisBatch_write this None operations r) = Inr () \<and>
   fst (snd (RedisBatch_write this None operations r)) = []"
proof -
  have reuse_rev: "RedisBatch_write this None (RedisBatch_put (RedisBatch_del [] dkey) key v) r' =
        (Inr (), [],
         issue (EXEC [DEL (prefixKey this dkey), SET (prefixKey this key) v])
           (r'\<lparr>store := ((store r')(prefixKey this dkey := None))(prefixKey this key \<mapsto> v)\<rparr>))"
    by (simp add: RedisBatch_write_eq RedisBatch_put_def RedisBatch_del_def)
  have reuse_both: "RedisBatch_write this None (RedisBatch_del (RedisBatch_put [] key v) dkey) r' =
        (Inr (), [],
         issue (EXEC [SET (prefixKey this key) v, DEL (prefixKey this dkey)])
           (r'\<lparr>store := ((store r')(prefixKey this key \<mapsto> v))(prefixKey this dkey := None)\<rparr>))"
    by (simp add: RedisBatch_write_eq RedisBatch_put_def RedisBatch_del_def)
  have cleared: "buffer = []" if "RedisBatch_write this fault operations r = (Inr (), buffer, r')"
    using that by (auto simp: RedisBatch_write_eq split: if_splits option.splits)
  have reuse_put: "RedisBatch_write this None (RedisBatch_put [] key v) r' =
        (Inr (), [],
         issue (EXEC [SET (prefixKey this key) v]) (r'\<lparr>store := (store r')(prefixKey this key \<mapsto> v)\<rparr>))"
    by (simp add: RedisBatch_write_eq RedisBatch_put_def)
  have reuse_del: "RedisBatch_write this None (RedisBatch_del [] key) r' =
        (Inr (), [],
         issue (EXEC [DEL (prefixKey this key)]) (r'\<lparr>store := (store r')(prefixKey this key := None)\<rparr>))"
    by (simp add: RedisBatch_write_eq RedisBatch_del_def)
  have ok: "fst (RedisBatch_write this None operations r) = Inr () \<and>
      fst (snd (RedisBatch_write this None operations r)) = []"
    by (simp add: RedisBatch_write_eq)
  show ?thesis
    using cleared reuse_put reuse_del reuse_both reuse_rev ok by auto
qed

theorem write_clears_buffer_witness:
  "RedisBatch_write fresh_service None [Put ''a'' ''1'', Put ''b'' ''2''] empty_remote =
     (Inr (), [],
      \<lparr>store = [''cryptoswap:watch-tower:a'' \<mapsto> ''1'', ''cryptoswap:watch-tower:b'' \<mapsto> ''2''],
       calls = [EXEC [SET ''cryptoswap:watch-tower:a'' ''1'', SET ''cryptoswap:watch-tower:b'' ''2'']]\<rparr>) \<and>
   RedisBatch_write fresh_service None (RedisBatch_del [] ''a'')
     \<lparr>store = [''cryptoswap:watch-tower:a'' \<mapsto> ''1'', ''cryptoswap:watch-tower:b'' \<mapsto> ''2''],
      calls = [EXEC [SET ''cryptoswap:watch-tower:a'' ''1'', SET ''cryptoswap:watch-tower:b'' ''2'']]\<rparr> =
     (Inr (), [],
      \<lparr>store = [''cryptoswap:watch-tower:b'' \<mapsto> ''2''],
       calls = [EXEC [SET ''cryptoswap:watch-tower:a'' ''1'', SET ''cryptoswap:watch-tower:b'' ''2''],
                EXEC [DEL ''cryptoswap:watch-tower:a'']]\<rparr>)"
proof -
  have first: "RedisBatch_write fresh_service None [Put ''a'' ''1'', Put ''b'' ''2''] empty_remote =
     (Inr (), [],
      \<lparr>store = [''cryptoswap:watch-tower:a'' \<mapsto> ''1'', ''cryptoswap:watch-tower:b'' \<mapsto> ''2''],
       calls = [EXEC [SET ''cryptoswap:watch-tower:a'' ''1'', SET ''cryptoswap:watch-tower:b'' ''2'']]\<rparr>)"
    by (simp add: RedisBatch_write_eq prefixKey_fresh empty_remote_def issue_def)
  have upd: "[''cryptoswap:watch-tower:a'' \<mapsto> ''1'', ''cryptoswap:watch-tower:b'' \<mapsto> ''2'']
      (''cryptoswap:watch-tower:a'' := None) = [''cryptoswap:watch-tower:b'' \<mapsto> ''2'']"
    by (rule ext) simp
  from write_clears_buffer [where this = fresh_service and fault = None
      and operations = "[Put ''a'' ''1'', Put ''b'' ''2'']" and r = empty_remote and buffer = "[]"
      and key = "''a''"
      and r' = "\<lparr>store = [''cryptoswap:watch-tower:a'' \<mapsto> ''1'',
                         ''cryptoswap:watch-tower:b'' \<mapsto> ''2''],
                calls = [EXEC [SET ''cryptoswap:watch-tower:a'' ''1'',
                               SET ''cryptoswap:watch-tower:b'' ''2'']]\<rparr>"] first upd
  show ?thesis
    by (simp add: prefixKey_fresh issue_def)
qed

text \<open>
  Claim C9. \<^verbatim>\<open>write\<close> on a builder whose buffer is empty succeeds at once, whatever the
  state of the transport: no call is made on the client and the store is as it was.
\<close>

theorem write_empty_noop:
  "RedisBatch_write this fault RedisDB_batch r = (Inr (), [], r) \<and>
   RedisBatch_write this fault [] r = (Inr (), [], r) \<and>
   calls (snd (snd (RedisBatch_write this fault [] r))) = calls r \<and>
   store (snd (snd (RedisBatch_write this fault [] r))) = store r"
  by (simp add: RedisBatch_write_def RedisDB_batch_def)

theorem write_empty_noop_witness:
  "RedisBatch_write fresh_service (Some (0, JsError (Some ''ECONNRESET''))) [] empty_remote =
     (Inr (), [], empty_remote)"
  using write_empty_noop [of fresh_service "Some (0, JsError (Some ''ECONNRESET''))" empty_remote]
  by simp

subsection \<open>Closing\<close>




subsection \<open>Construction\<close>

lemma DBService_getInstance_sets:
  "DBService_getInstance Number path st cfg p = (inst, p1) \<Longrightarrow> DBService_instance p1 = Some inst"
  by (auto simp: DBService_getInstance_def split: option.splits prod.splits)

lemma DBService_getInstance_again:
  "DBService_instance p = Some inst \<Longrightarrow> DBService_getInstance Number path st cfg p = (inst, p)"
  by (simp add: DBService_getInstance_def)

lemma DBService_requests_again:
  "DBService_instance p = Some inst \<Longrightarrow>
   DBService_requests Number reqs p = (replicate (length reqs) inst, p)"
proof (induction reqs)
  case Nil
  then show ?case by simp
next
  case (Cons req reqs)
  obtain path st cfg where req: "req = (path, st, cfg)"
    by (cases req)
  from Cons show ?case
    by (simp add: req DBService_getInstance_again)
qed

lemma RedisDBService_getInstance_sets:
  "RedisDBService_getInstance Number c p = (svc, p1) \<Longrightarrow> RedisDBService_instance p1 = Some svc"
  by (auto simp: RedisDBService_getInstance_def split: option.splits prod.splits)

lemma storage_type_redis_iff:
  "js_or st (js_or (STORAGE_TYPE e) ''leveldb'') = ''redis'' \<longleftrightarrow> selects_remote st e"
  by (auto simp: js_or_def selects_remote_def split: option.splits)

lemma DBService_new_embedded:
  "\<not> selects_remote st (env p) \<Longrightarrow>
   DBService_new Number path st cfg p =
     (\<lparr>db_oid = objects p, db = LevelDB (js_or path DEFAULT_DB_LOCATION),
       storageType = js_or st (js_or (STORAGE_TYPE (env p)) ''leveldb''), redisService = None\<rparr>,
      p\<lparr>objects := objects p + 1\<rparr>)"
  using storage_type_redis_iff [of st "env p"] by (simp add: DBService_new_def Let_def)

lemma DBService_new_remote:
  "selects_remote st (env p) \<Longrightarrow>
   DBService_new Number path st cfg p =
     (case RedisDBService_getInstance Number
             (Some (case cfg of Some c \<Rightarrow> c | None \<Rightarrow> env_config Number (env p)))
             (p\<lparr>objects := objects p + 1\<rparr>) of
        (svc, p1) \<Rightarrow>
          (\<lparr>db_oid = objects p, db = RedisDB (oid svc), storageType = ''redis'',
            redisService = Some svc\<rparr>, p1))"
  using storage_type_redis_iff [of st "env p"] by (simp add: DBService_new_def Let_def)

lemma RedisDBService_getInstance_fresh:
  "RedisDBService_instance p = None \<Longrightarrow>
   RedisDBService_getInstance Number (Some config) p =
     (fst (RedisDBService_new Number (Some config) p),
      p\<lparr>objects := objects p + 1,
        RedisDBService_instance := Some (fst (RedisDBService_new Number (Some config) p))\<rparr>)"
  by (simp add: RedisDBService_getInstance_def RedisDBService_new_def Let_def)

lemma RedisDBService_new_options:
  "options (fst (RedisDBService_new Number (Some config) p)) =
     \<lparr>opt_host = host config, lazyConnect = True, showFriendlyErrorStack = True,
      enableAutoPipelining = True, maxRetriesPerRequest = 0, opt_retryStrategy = retryStrategy,
      opt_port = (if truthy_number (port config) then port config else None),
      opt_password = (if truthy_string (password config) then password config else None)\<rparr>"
  by (simp add: RedisDBService_new_def Let_def)

text \<open>
  Claim C7. Once a request for the instance has been answered, every later request,
  whatever its arguments, returns that same instance (the same object identity and
  content) and leaves the process state as it is: no object is constructed and the
  remote service singleton is not touched. The same holds for the remote service's own
  \<^verbatim>\<open>getInstance\<close>.
\<close>

theorem getInstance_idempotent:
  "(DBService_getInstance Number path st cfg p = (inst, p1) \<longrightarrow>
      DBService_requests Number reqs p1 = (replicate (length reqs) inst, p1) \<and>
      DBService_requests Number ((path, st, cfg) # reqs) p = (inst # replicate (length reqs) inst, p1) \<and>
      DBService_getInstance Number path' st' cfg' p1 = (inst, p1)) \<and>
   (RedisDBService_getInstance Number c p = (svc, p2) \<longrightarrow>
      RedisDBService_getInstance Number c' p2 = (svc, p2))"
proof -
  have facade: "DBService_requests Number reqs p1 = (replicate (length reqs) inst, p1) \<and>
      DBService_requests Number ((path, st, cfg) # reqs) p = (inst # replicate (length reqs) inst, p1) \<and>
      DBService_getInstance Number path' st' cfg' p1 = (inst, p1)"
    if first: "DBService_getInstance Number path st cfg p = (inst, p1)"
  proof -
    from first have set: "DBService_instance p1 = Some inst"
      by (rule DBService_getInstance_sets)
    then have rest: "DBService_requests Number reqs p1 = (replicate (length reqs) inst, p1)"
      by (rule DBService_requests_again)
    with first set show ?thesis
      by (simp add: DBService_getInstance_again)
  qed
  have remote: "RedisDBService_getInstance Number c' p2 = (svc, p2)"
    if "RedisDBService_getInstance Number c p = (svc, p2)"
    using RedisDBService_getInstance_sets [OF that]
    by (simp add: RedisDBService_getInstance_def)
  from facade remote show ?thesis by blast
qed

theorem getInstance_idempotent_witness:
  "DBService_requests (\<lambda>s. NaN)
     [(None, None, None), (Some ''/tmp/db'', Some ''redis'', None), (None, Some ''leveldb'', None)]
     (fresh_process no_env) =
     ([\<lparr>db_oid = 0, db = LevelDB ''./database'', storageType = ''leveldb'', redisService = None\<rparr>,
       \<lparr>db_oid = 0, db = LevelDB ''./database'', storageType = ''leveldb'', redisService = None\<rparr>,
       \<lparr>db_oid = 0, db = LevelDB ''./database'', storageType = ''leveldb'', redisService = None\<rparr>],
      \<lparr>env = no_env, objects = 1, RedisDBService_instance = None,
        DBService_instance =
          Some \<lparr>db_oid = 0, db = LevelDB ''./database'', storageType = ''leveldb'',
                 redisService = None\<rparr>\<rparr>)"
proof -
  have first: "DBService_getInstance (\<lambda>s. NaN) None None None (fresh_process no_env) =
     (\<lparr>db_oid = 0, db = LevelDB ''./database'', storageType = ''leveldb'', redisService = None\<rparr>,
      \<lparr>env = no_env, objects = 1, RedisDBService_instance = None,
        DBService_instance =
          Some \<lparr>db_oid = 0, db = LevelDB ''./database'', storageType = ''leveldb'',
                 redisService = None\<rparr>\<rparr>)"
    by (simp add: DBService_getInstance_def DBService_new_def fresh_process_def no_env_def
        js_or_def DEFAULT_DB_LOCATION_def Let_def)
  from getInstance_idempotent [where Number = "\<lambda>s. NaN" and path = None and st = None
      and cfg = None and p = "fresh_process no_env"
      and reqs = "[(Some ''/tmp/db'', Some ''redis'', None), (None, Some ''leveldb'', None)]",
      THEN conjunct1, rule_format, OF first]
  show ?thesis
    by simp
qed

lemma client_port_new:
  "client_port (options (fst (RedisDBService_new Number (Some config) p))) =
     (case port config of Some (Num n) \<Rightarrow> if n = 0 then Num 6379 else Num n | _ \<Rightarrow> Num 6379)"
  by (simp add: RedisDBService_new_options client_port_def split: option.splits js_number.splits)

lemma DBService_new_reuses:
  "selects_remote st (env p) \<Longrightarrow> RedisDBService_instance p = Some old \<Longrightarrow>
   DBService_new Number path st cfg p =
     (\<lparr>db_oid = objects p, db = RedisDB (oid old), storageType = ''redis'',
       redisService = Some old\<rparr>, p\<lparr>objects := objects p + 1\<rparr>)"
  by (simp add: DBService_new_remote RedisDBService_getInstance_def)

text \<open>
  Claim C8, as stated, fails where it says that the remote backend is configured with
  the given host, port and credential: when the process already holds a remote service
  instance, the constructor reuses it and the configuration it is given is ignored.
  After \<^verbatim>\<open>RedisDBService.getInstance\<close> with the host \<^verbatim>\<open>first\<close>, a facade constructed for the
  host \<^verbatim>\<open>second\<close>, port 6380 and a password holds the service for \<^verbatim>\<open>first\<close>, with no port
  and no password.
\<close>

theorem backend_config_ignored_counterexample:
  "selects_remote (Some ''redis'') no_env \<and>
   redisService
     (fst (DBService_new Number_6380 None (Some ''redis'')
             (Some \<lparr>host = ''second'', port = Some (Num 6380), password = Some ''pw''\<rparr>)
             (snd (RedisDBService_getInstance Number_6380
                     (Some \<lparr>host = ''first'', port = None, password = None\<rparr>)
                     (fresh_process no_env))))) =
     Some
       \<lparr>oid = 0,
        options = \<lparr>opt_host = ''first'', lazyConnect = True, showFriendlyErrorStack = True,
          enableAutoPipelining = True, maxRetriesPerRequest = 0,
          opt_retryStrategy = retryStrategy, opt_port = None, opt_password = None\<rparr>,
        isConnected = False, keyPrefix = ''cryptoswap:watch-tower:''\<rparr>"
  by (simp add: selects_remote_def DBService_new_def RedisDBService_getInstance_def
      RedisDBService_new_def fresh_process_def no_env_def js_or_def Let_def)

text \<open>
  Claim C8, amended. The constructor selects the embedded backend, at the given path or
  at \<^verbatim>\<open>./database\<close>, whenever the configuration does not opt in to the remote one, in
  particular when neither the argument nor the environment variable is set; it selects
  the remote backend exactly when the configuration opts in. When the process holds no
  remote service instance yet, the one constructed gets the host of the configuration,
  its port when that is a non-zero number and its password when that is non-empty, and
  the client connects to that port, or to 6379 when the configuration has no such port;
  a remote service instance the process already holds is reused as it is. The
  configuration read from the environment has the host \<^verbatim>\<open>localhost\<close> by default, the port
  6379 when \<^verbatim>\<open>REDIS_PORT\<close> is unset or empty and the number \<^verbatim>\<open>REDIS_PORT\<close> converts to
  otherwise, and the password \<^verbatim>\<open>REDIS_PASSWORD\<close>.
\<close>

theorem backend_selection:
  "(\<not> selects_remote st (env p) \<longrightarrow>
      db (fst (DBService_new Number path st cfg p)) = LevelDB (js_or path ''./database'') \<and>
      redisService (fst (DBService_new Number path st cfg p)) = None \<and>
      RedisDBService_instance (snd (DBService_new Number path st cfg p)) =
        RedisDBService_instance p) \<and>
   (st = None \<and> STORAGE_TYPE (env p) = None \<longrightarrow> \<not> selects_remote st (env p)) \<and>
   (selects_remote rst (env rp) \<longrightarrow>
      (\<exists>svc. redisService (fst (DBService_new Number rpath rst rcfg rp)) = Some svc \<and>
         db (fst (DBService_new Number rpath rst rcfg rp)) = RedisDB (oid svc) \<and>
         RedisDBService_instance (snd (DBService_new Number rpath rst rcfg rp)) = Some svc)) \<and>
   (selects_remote rst (env rp) \<and> RedisDBService_instance rp = None \<longrightarrow>
      (\<exists>svc. redisService (fst (DBService_new Number rpath rst rcfg rp)) = Some svc \<and>
         opt_host (options svc) =
           host (case rcfg of Some c \<Rightarrow> c | None \<Rightarrow> env_config Number (env rp)) \<and>
         opt_port (options svc) =
           (let n = port (case rcfg of Some c \<Rightarrow> c | None \<Rightarrow> env_config Number (env rp))
            in if truthy_number n then n else None) \<and>
         client_port (options svc) =
           (case port (case rcfg of Some c \<Rightarrow> c | None \<Rightarrow> env_config Number (env rp)) of
              Some (Num n) \<Rightarrow> if n = 0 then Num 6379 else Num n
            | _ \<Rightarrow> Num 6379) \<and>
         opt_password (options svc) =
           (let w = password (case rcfg of Some c \<Rightarrow> c | None \<Rightarrow> env_config Number (env rp))
            in if truthy_string w then w else None))) \<and>
   (selects_remote xst (env xp) \<and> RedisDBService_instance xp = Some old \<longrightarrow>
      redisService (fst (DBService_new Number xpath xst xcfg xp)) = Some old \<and>
      RedisDBService_instance (snd (DBService_new Number xpath xst xcfg xp)) = Some old) \<and>
   host (env_config Number e) = js_or (REDIS_HOST e) ''localhost'' \<and>
   password (env_config Number e) = REDIS_PASSWORD e \<and>
   (REDIS_PORT e = None \<or> REDIS_PORT e = Some [] \<longrightarrow>
      port (env_config Number e) = Some (Num 6379)) \<and>
   (s \<noteq> [] \<longrightarrow> port (env_config Number (e\<lparr>REDIS_PORT := Some s\<rparr>)) = Some (Number s))"
proof -
  have embedded: "\<not> selects_remote st (env p) \<longrightarrow>
      db (fst (DBService_new Number path st cfg p)) = LevelDB (js_or path ''./database'') \<and>
      redisService (fst (DBService_new Number path st cfg p)) = None \<and>
      RedisDBService_instance (snd (DBService_new Number path st cfg p)) =
        RedisDBService_instance p"
    by (simp add: DBService_new_embedded DEFAULT_DB_LOCATION_def)
  have default: "st = None \<and> STORAGE_TYPE (env p) = None \<longrightarrow> \<not> selects_remote st (env p)"
    by (simp add: selects_remote_def)
  have remote: "selects_remote rst (env rp) \<longrightarrow>
      (\<exists>svc. redisService (fst (DBService_new Number rpath rst rcfg rp)) = Some svc \<and>
         db (fst (DBService_new Number rpath rst rcfg rp)) = RedisDB (oid svc) \<and>
         RedisDBService_instance (snd (DBService_new Number rpath rst rcfg rp)) = Some svc)"
  proof
    assume sel: "selects_remote rst (env rp)"
    obtain svc p1 where g: "RedisDBService_getInstance Number
             (Some (case rcfg of Some c \<Rightarrow> c | None \<Rightarrow> env_config Number (env rp)))
             (rp\<lparr>objects := objects rp + 1\<rparr>) = (svc, p1)"
      by (cases "RedisDBService_getInstance Number
             (Some (case rcfg of Some c \<Rightarrow> c | None \<Rightarrow> env_config Number (env rp)))
             (rp\<lparr>objects := objects rp + 1\<rparr>)")
    from g have "RedisDBService_instance p1 = Some svc"
      by (rule RedisDBService_getInstance_sets)
    with sel g show "\<exists>svc. redisService (fst (DBService_new Number rpath rst rcfg rp)) = Some svc \<and>
         db (fst (DBService_new Number rpath rst rcfg rp)) = RedisDB (oid svc) \<and>
         RedisDBService_instance (snd (DBService_new Number rpath rst rcfg rp)) = Some svc"
      by (simp add: DBService_new_remote)
  qed
  have configured: "selects_remote rst (env rp) \<and> RedisDBService_instance rp = None \<longrightarrow>
      (\<exists>svc. redisService (fst (DBService_new Number rpath rst rcfg rp)) = Some svc \<and>
         opt_host (options svc) =
           host (case rcfg of Some c \<Rightarrow> c | None \<Rightarrow> env_config Number (env rp)) \<and>
         opt_port (options svc) =
           (let n = port (case rcfg of Some c \<Rightarrow> c | None \<Rightarrow> env_config Number (env rp))
            in if truthy_number n then n else None) \<and>
         client_port (options svc) =
           (case port (case rcfg of Some c \<Rightarrow> c | None \<Rightarrow> env_config Number (env rp)) of
              Some (Num n) \<Rightarrow> if n = 0 then Num 6379 else Num n
            | _ \<Rightarrow> Num 6379) \<and>
         opt_password (options svc) =
           (let w = password (case rcfg of Some c \<Rightarrow> c | None \<Rightarrow> env_config Number (env rp))
            in if truthy_string w then w else None))"
  proof
    assume h: "selects_remote rst (env rp) \<and> RedisDBService_instance rp = None"
    define config where "config = (case rcfg of Some c \<Rightarrow> c | None \<Rightarrow> env_config Number (env rp))"
    define svc where
      "svc = fst (RedisDBService_new Number (Some config) (rp\<lparr>objects := objects rp + 1\<rparr>))"
    have held: "redisService (fst (DBService_new Number rpath rst rcfg rp)) = Some svc"
      using h
      by (simp add: DBService_new_remote RedisDBService_getInstance_fresh svc_def config_def)
    have opts: "options svc =
        \<lparr>opt_host = host config, lazyConnect = True, showFriendlyErrorStack = True,
         enableAutoPipelining = True, maxRetriesPerRequest = 0, opt_retryStrategy = retryStrategy,
         opt_port = (if truthy_number (port config) then port config else None),
         opt_password = (if truthy_string (password config) then password config else None)\<rparr>"
      unfolding svc_def by (rule RedisDBService_new_options)
    have cport: "client_port (options svc) =
        (case port config of Some (Num n) \<Rightarrow> if n = 0 then Num 6379 else Num n | _ \<Rightarrow> Num 6379)"
      unfolding svc_def by (rule client_port_new)
    have fields: "opt_host (options svc) = host config \<and>
        opt_port (options svc) = (let n = port config in if truthy_number n then n else None) \<and>
        opt_password (options svc) =
          (let w = password config in if truthy_string w then w else None)"
      by (simp add: opts Let_def)
    from held cport fields
    have "redisService (fst (DBService_new Number rpath rst rcfg rp)) = Some svc \<and>
         opt_host (options svc) = host config \<and>
         opt_port (options svc) = (let n = port config in if truthy_number n then n else None) \<and>
         client_port (options svc) =
           (case port config of Some (Num n) \<Rightarrow> if n = 0 then Num 6379 else Num n
            | _ \<Rightarrow> Num 6379) \<and>
         opt_password (options svc) =
           (let w = password config in if truthy_string w then w else None)"
      by (simp only: simp_thms)
    then show "\<exists>svc. redisService (fst (DBService_new Number rpath rst rcfg rp)) = Some svc \<and>
         opt_host (options svc) =
           host (case rcfg of Some c \<Rightarrow> c | None \<Rightarrow> env_config Number (env rp)) \<and>
         opt_port (options svc) =
           (let n = port (case rcfg of Some c \<Rightarrow> c | None \<Rightarrow> env_config Number (env rp))
            in if truthy_number n then n else None) \<and>
         client_port (options svc) =
           (case port (case rcfg of Some c \<Rightarrow> c | None \<Rightarrow> env_config Number (env rp)) of
              Some (Num n) \<Rightarrow> if n = 0 then Num 6379 else Num n
            | _ \<Rightarrow> Num 6379) \<and>
         opt_password (options svc) =
           (let w = password (case rcfg of Some c \<Rightarrow> c | None \<Rightarrow> env_config Number (env rp))
            in if truthy_string w then w else None)"
      unfolding config_def by (rule exI)
  qed
  have reused: "selects_remote xst (env xp) \<and> RedisDBService_instance xp = Some old \<longrightarrow>
      redisService (fst (DBService_new Number xpath xst xcfg xp)) = Some old \<and>
      RedisDBService_instance (snd (DBService_new Number xpath xst xcfg xp)) = Some old"
    by (simp add: DBService_new_reuses)
  have env_host: "host (env_config Number e) = js_or (REDIS_HOST e) ''localhost''"
    by (simp add: env_config_def)
  have env_password: "password (env_config Number e) = REDIS_PASSWORD e"
    by (simp add: env_config_def)
  have env_default: "REDIS_PORT e = None \<or> REDIS_PORT e = Some [] \<longrightarrow>
      port (env_config Number e) = Some (Num 6379)"
    by (auto simp: env_config_def)
  have env_port: "s \<noteq> [] \<longrightarrow> port (env_config Number (e\<lparr>REDIS_PORT := Some s\<rparr>)) = Some (Number s)"
    by (simp add: env_config_def)
  show ?thesis
    by (intro conjI embedded default remote configured reused env_host env_password
        env_default env_port)
qed

theorem backend_selection_witness:
  "db (fst (DBService_new Number_6380 None None None (fresh_process no_env))) =
     LevelDB ''./database'' \<and>
   fst (DBService_new Number_6380 None None None
          (fresh_process \<lparr>STORAGE_TYPE = Some ''redis'', REDIS_HOST = Some ''cache'',
                           REDIS_PORT = Some ''6380'', REDIS_PASSWORD = Some ''pw''\<rparr>)) =
     \<lparr>db_oid = 0, db = RedisDB 1, storageType = ''redis'',
      redisService = Some
        \<lparr>oid = 1,
         options = \<lparr>opt_host = ''cache'', lazyConnect = True, showFriendlyErrorStack = True,
           enableAutoPipelining = True, maxRetriesPerRequest = 0,
           opt_retryStrategy = retryStrategy, opt_port = Some (Num 6380),
           opt_password = Some ''pw''\<rparr>,
         isConnected = False, keyPrefix = ''cryptoswap:watch-tower:''\<rparr>\<rparr> \<and>
   fst (DBService_new Number_6380 None (Some ''redis'')
          (Some \<lparr>host = ''db.internal'', port = None, password = None\<rparr>) (fresh_process no_env)) =
     \<lparr>db_oid = 0, db = RedisDB 1, storageType = ''redis'',
      redisService = Some
        \<lparr>oid = 1,
         options = \<lparr>opt_host = ''db.internal'', lazyConnect = True, showFriendlyErrorStack = True,
           enableAutoPipelining = True, maxRetriesPerRequest = 0,
           opt_retryStrategy = retryStrategy, opt_port = None, opt_password = None\<rparr>,
         isConnected = False, keyPrefix = ''cryptoswap:watch-tower:''\<rparr>\<rparr> \<and>
   client_port
     \<lparr>opt_host = ''db.internal'', lazyConnect = True, showFriendlyErrorStack = True,
      enableAutoPipelining = True, maxRetriesPerRequest = 0,
      opt_retryStrategy = retryStrategy, opt_port = None, opt_password = None\<rparr> = Num 6379 \<and>
   redisService
     (fst (DBService_new Number_6380 None (Some ''redis'')
             (Some \<lparr>host = ''db.internal'', port = None, password = None\<rparr>)
             \<lparr>env = no_env, objects = 1, RedisDBService_instance = Some fresh_service,
               DBService_instance = None\<rparr>)) = Some fresh_service \<and>
   port (env_config Number_6380 no_env) = Some (Num 6379) \<and>
   port (env_config Number_6380 (no_env\<lparr>REDIS_PORT := Some ''6380''\<rparr>)) = Some (Num 6380)"
proof -
  have no: "\<not> selects_remote None (env (fresh_process no_env))"
    by (simp add: selects_remote_def fresh_process_def no_env_def)
  have yes: "selects_remote None
      (env (fresh_process \<lparr>STORAGE_TYPE = Some ''redis'', REDIS_HOST = Some ''cache'',
                             REDIS_PORT = Some ''6380'', REDIS_PASSWORD = Some ''pw''\<rparr>))"
    by (simp add: selects_remote_def fresh_process_def)
  have arg: "selects_remote (Some ''redis'') e" for e
    by (simp add: selects_remote_def)
  have from_env: "fst (DBService_new Number_6380 None None None
          (fresh_process \<lparr>STORAGE_TYPE = Some ''redis'', REDIS_HOST = Some ''cache'',
                           REDIS_PORT = Some ''6380'', REDIS_PASSWORD = Some ''pw''\<rparr>)) =
     \<lparr>db_oid = 0, db = RedisDB 1, storageType = ''redis'',
      redisService = Some
        \<lparr>oid = 1,
         options = \<lparr>opt_host = ''cache'', lazyConnect = True, showFriendlyErrorStack = True,
           enableAutoPipelining = True, maxRetriesPerRequest = 0,
           opt_retryStrategy = retryStrategy, opt_port = Some (Num 6380),
           opt_password = Some ''pw''\<rparr>,
         isConnected = False, keyPrefix = ''cryptoswap:watch-tower:''\<rparr>\<rparr>"
    by (simp add: DBService_new_def RedisDBService_getInstance_def RedisDBService_new_def
        fresh_process_def env_config_def js_or_def Number_6380_def Let_def)
  have explicit: "fst (DBService_new Number_6380 None (Some ''redis'')
          (Some \<lparr>host = ''db.internal'', port = None, password = None\<rparr>) (fresh_process no_env)) =
     \<lparr>db_oid = 0, db = RedisDB 1, storageType = ''redis'',
      redisService = Some
        \<lparr>oid = 1,
         options = \<lparr>opt_host = ''db.internal'', lazyConnect = True, showFriendlyErrorStack = True,
           enableAutoPipelining = True, maxRetriesPerRequest = 0,
           opt_retryStrategy = retryStrategy, opt_port = None, opt_password = None\<rparr>,
         isConnected = False, keyPrefix = ''cryptoswap:watch-tower:''\<rparr>\<rparr>"
    by (simp add: DBService_new_def RedisDBService_getInstance_def RedisDBService_new_def
        fresh_process_def no_env_def js_or_def Let_def)
  have unset: "client_port
     \<lparr>opt_host = ''db.internal'', lazyConnect = True, showFriendlyErrorStack = True,
      enableAutoPipelining = True, maxRetriesPerRequest = 0,
      opt_retryStrategy = retryStrategy, opt_port = None, opt_password = None\<rparr> = Num 6379"
    by (simp add: client_port_def)
  from backend_selection [where Number = Number_6380 and st = None and path = None and cfg = None
      and p = "fresh_process no_env" and rst = None and rpath = None and rcfg = None
      and rp = "fresh_process \<lparr>STORAGE_TYPE = Some ''redis'', REDIS_HOST = Some ''cache'',
                                REDIS_PORT = Some ''6380'', REDIS_PASSWORD = Some ''pw''\<rparr>"
      and xst = "Some ''redis''" and xpath = None
      and xcfg = "Some \<lparr>host = ''db.internal'', port = None, password = None\<rparr>"
      and xp = "\<lparr>env = no_env, objects = 1, RedisDBService_instance = Some fresh_service,
                 DBService_instance = None\<rparr>"
      and old = fresh_service and e = no_env and s = "''6380''"]
    no yes arg from_env explicit unset
  show ?thesis
    by (simp add: js_or_def no_env_def Number_6380_def)
qed

end
